theory Spec2Isabelle
  imports Complex_Main "HOL-Library.Char_ord" "HOL-Library.List_Lexorder" "HOL-Library.Sublist"
    "HOL-Library.Multiset"
begin

section \<open>Python values\<close>

text \<open>
  The result objects of the repository are Python dictionaries with string keys whose
  values are \<open>None\<close>, booleans, integers, strings, lists and nested dictionaries.
  A dictionary is an association list in insertion order with distinct keys, since the
  CSV writer depends on the order of the keys.
\<close>

datatype pyval =
    PNone
  | PBool bool
  | PInt int
  | PStr string
  | PList "pyval list"
  | PDict "(string \<times> pyval) list"

type_synonym pydict = "(string \<times> pyval) list"

text \<open>
  An exception is its class name and the text that \<open>str(e)\<close> gives. Only subclasses of
  \<open>Exception\<close> are modelled: those are what \<open>except Exception\<close> catches.
\<close>

datatype exn = Exn (exn_class: string) (exn_str: string)

text \<open>Truth value testing, as \<open>if x:\<close> does it.\<close>

fun truthy :: "pyval \<Rightarrow> bool" where
  "truthy PNone = False"
| "truthy (PBool b) = b"
| "truthy (PInt i) = (i \<noteq> 0)"
| "truthy (PStr s) = (s \<noteq> [])"
| "truthy (PList xs) = (xs \<noteq> [])"
| "truthy (PDict d) = (d \<noteq> [])"

text \<open>\<open>d.get(k, default)\<close>, \<open>d.get(k)\<close>, \<open>d[k] = v\<close> and \<open>d.keys()\<close>.\<close>

definition dict_get :: "pydict \<Rightarrow> string \<Rightarrow> pyval \<Rightarrow> pyval" where
  "dict_get d k dflt = (case map_of d k of None \<Rightarrow> dflt | Some v \<Rightarrow> v)"

abbreviation dict_get_none :: "pydict \<Rightarrow> string \<Rightarrow> pyval" where
  "dict_get_none d k \<equiv> dict_get d k PNone"

fun dict_set :: "pydict \<Rightarrow> string \<Rightarrow> pyval \<Rightarrow> pydict" where
  "dict_set [] k v = [(k, v)]"
| "dict_set ((k', v') # d) k v =
     (if k' = k then (k, v) # d else (k', v') # dict_set d k v)"

definition keys :: "pydict \<Rightarrow> string list" where
  "keys d = map fst d"

text \<open>The line feed, and \<open>sep.join(xs)\<close> on a list of strings.\<close>

definition nl :: string where
  "nl = [CHR 0x0A]"

fun join :: "string \<Rightarrow> string list \<Rightarrow> string" where
  "join sep [] = []"
| "join sep [x] = x"
| "join sep (x # y # ys) = x @ sep @ join sep (y # ys)"

section \<open>gutenocr\_engine.py\<close>

subsection \<open>\<open>GutenOCREngine._generate_prompt\<close>\<close>

definition prompts :: "(string \<times> (string \<times> string) list) list" where
  "prompts =
    [(''reading'',
       [(''TEXT'', ''Read all text in the image and return a single TEXT string, linearized left-to-right/top-to-bottom.''),
        (''TEXT2D'', ''Return a layout-sensitive TEXT2D representation of the image.''),
        (''LINES'', ''Return line-by-line OCR as LINES with bounding boxes.''),
        (''WORDS'', ''Return word-by-word OCR as WORDS with bounding boxes.''),
        (''PARAGRAPHS'', ''Return paragraph-wise OCR as PARAGRAPHS with bounding boxes.''),
        (''LATEX'', ''Extract all LaTeX expressions with bounding boxes.'')]),
     (''detection'',
       [(''BOX'', ''Highlight all text regions in the image by returning their bounding boxes as a JSON array.'')]),
     (''localized_reading'',
       [(''TEXT'', ''What does it say in the specified region of the image?'')]),
     (''conditional_detection'',
       [(''BOX'', ''Find and return bounding boxes for the specified text query.'')])]"

text \<open>\<open>prompts.get(task_type, {}).get(output_format, "Read all text in the image.")\<close>\<close>

definition generate_prompt :: "string \<Rightarrow> string \<Rightarrow> string" where
  "generate_prompt task_type output_format =
     (case map_of (case map_of prompts task_type of None \<Rightarrow> [] | Some d \<Rightarrow> d) output_format of
        None \<Rightarrow> ''Read all text in the image.''
      | Some p \<Rightarrow> p)"

subsection \<open>\<open>GutenOCREngine.process_image\<close>\<close>

text \<open>
  The image library, the tokenizer and the model are outside the repository. The engine
  holds them as two functions: \<open>image_open\<close> is \<open>Image.open(image_path).convert("RGB")\<close>,
  which gives the exception it raises or \<open>None\<close> when the image loaded; and
  \<open>generate_decode\<close> is the chain from \<open>apply_chat_template\<close> to \<open>batch_decode\<close> on
  the image at the path, the prompt and \<open>max_new_tokens\<close>, which gives the exception raised
  anywhere in the chain or the list \<open>output_text\<close>.
\<close>

record GutenOCREngine =
  image_open :: "string \<Rightarrow> exn option"
  generate_decode :: "string \<Rightarrow> string \<Rightarrow> int \<Rightarrow> exn + string list"

text \<open>\<open>try: body except Exception as e: handler(e)\<close>\<close>

definition try_except :: "exn + 'a \<Rightarrow> (exn \<Rightarrow> exn + 'a) \<Rightarrow> exn + 'a" where
  "try_except body handler = (case body of Inl e \<Rightarrow> handler e | Inr v \<Rightarrow> Inr v)"

text \<open>The body of the \<open>try\<close> block of \<open>process_image\<close>.\<close>

definition process_image_body ::
  "GutenOCREngine \<Rightarrow> string \<Rightarrow> string \<Rightarrow> string \<Rightarrow> int \<Rightarrow> string option \<Rightarrow> exn + pydict" where
  "process_image_body eng image_path task_type output_format max_new_tokens custom_prompt =
     (case image_open eng image_path of
        Some e \<Rightarrow> Inl e
      | None \<Rightarrow>
          (let prompt =
                 (case custom_prompt of
                    None \<Rightarrow> generate_prompt task_type output_format
                  | Some p \<Rightarrow> if p \<noteq> [] then p else generate_prompt task_type output_format)
           in case generate_decode eng image_path prompt max_new_tokens of
                Inl e \<Rightarrow> Inl e
              | Inr output_text \<Rightarrow>
                  (case output_text of
                     [] \<Rightarrow> Inl (Exn ''IndexError'' ''list index out of range'')
                   | t # _ \<Rightarrow>
                       Inr [(''success'', PBool True),
                            (''image_path'', PStr image_path),
                            (''task_type'', PStr task_type),
                            (''output_format'', PStr output_format),
                            (''text'', PStr t),
                            (''prompt'', PStr prompt)])))"

definition process_image ::
  "GutenOCREngine \<Rightarrow> string \<Rightarrow> string \<Rightarrow> string \<Rightarrow> int \<Rightarrow> string option \<Rightarrow> exn + pydict" where
  "process_image eng image_path task_type output_format max_new_tokens custom_prompt =
     try_except
       (process_image_body eng image_path task_type output_format max_new_tokens custom_prompt)
       (\<lambda>e. Inr [(''success'', PBool False),
                 (''image_path'', PStr image_path),
                 (''error'', PStr (exn_str e))])"

subsection \<open>\<open>GutenOCREngine.batch_process\<close>\<close>

text \<open>The \<open>for\<close> loop, with the list \<open>results\<close> it appends to.\<close>

fun engine_batch_loop ::
  "GutenOCREngine \<Rightarrow> string list \<Rightarrow> string \<Rightarrow> string \<Rightarrow> int \<Rightarrow> pydict list \<Rightarrow> exn + pydict list" where
  "engine_batch_loop eng [] task_type output_format max_new_tokens results = Inr results"
| "engine_batch_loop eng (image_path # rest) task_type output_format max_new_tokens results =
     (case process_image eng image_path task_type output_format max_new_tokens None of
        Inl e \<Rightarrow> Inl e
      | Inr result \<Rightarrow>
          engine_batch_loop eng rest task_type output_format max_new_tokens (results @ [result]))"

definition GutenOCREngine_batch_process ::
  "GutenOCREngine \<Rightarrow> string list \<Rightarrow> string \<Rightarrow> string \<Rightarrow> int \<Rightarrow> exn + pydict list" where
  "GutenOCREngine_batch_process eng image_paths task_type output_format max_new_tokens =
     engine_batch_loop eng image_paths task_type output_format max_new_tokens []"

section \<open>file\_processor.py\<close>

text \<open>
  The world outside the program: the two readings of the clock that the code takes
  (\<open>strftime("%Y%m%d_%H%M%S")\<close> and \<open>isoformat()\<close>), the entries below each directory,
  whether \<open>open(path, 'w')\<close> raises, and \<open>repr\<close>, which the code reaches through
  \<open>str\<close> and f-strings on values that are not strings.
\<close>

datatype node = File string | Dir string "node list"

record world =
  now_strftime :: string
  now_isoformat :: string
  listing :: "string \<Rightarrow> node list"
  open_w :: "string \<Rightarrow> exn option"
  repr :: "pyval \<Rightarrow> string"

text \<open>\<open>str(v)\<close>, which is also what \<open>{v}\<close> gives inside an f-string.\<close>

definition py_str :: "world \<Rightarrow> pyval \<Rightarrow> string" where
  "py_str w v = (case v of PStr s \<Rightarrow> s | _ \<Rightarrow> repr w v)"

text \<open>
  What a written file holds: the value handed to \<open>json.dump\<close>, the text written, or the
  rows handed to the CSV writer (the quoting of a cell by the \<open>csv\<close> module is below this
  model). \<open>files\<close> maps each path written so far to its content.
\<close>

datatype file_content =
    JsonDump pyval
  | TextFile string
  | CsvFile "pyval list list"

type_synonym files = "(string \<times> file_content) list"

definition write_file :: "files \<Rightarrow> string \<Rightarrow> file_content \<Rightarrow> files" where
  "write_file fs path c = (path, c) # filter (\<lambda>(p, _). p \<noteq> path) fs"

text \<open>
  \<open>str(Path(s))\<close> on a POSIX system: the string is cut at the slashes, empty components
  and \<open>.\<close> components are dropped (\<open>..\<close> is kept), a leading slash is kept (two leading
  slashes, and only exactly two, are kept as two), and the path without any component and
  without a root is \<open>.\<close>. So \<open>./input\<close> becomes \<open>input\<close>.
\<close>

fun split_slash :: "string \<Rightarrow> string \<Rightarrow> string list" where
  "split_slash [] cur = [cur]"
| "split_slash (c # cs) cur =
     (if c = CHR ''/'' then cur # split_slash cs [] else split_slash cs (cur @ [c]))"

definition Path :: "string \<Rightarrow> string" where
  "Path s =
     (let root = (if take 2 s = ''//'' \<and> take 3 s \<noteq> ''///'' then ''//''
                  else if take 1 s = ''/'' then ''/''
                  else []);
          parts = filter (\<lambda>p. p \<noteq> [] \<and> p \<noteq> ''.'') (split_slash s [])
      in if root = [] \<and> parts = [] then ''.'' else root @ join ''/'' parts)"

text \<open>
  The file processor holds its two directories as \<open>Path\<close> objects; the fields here are
  their strings, in the normal form above.
\<close>

record FileProcessor =
  input_dir :: string
  output_dir :: string

text \<open>
  \<open>dir / name\<close> on \<open>pathlib\<close> paths and \<open>str\<close> of the result, for a directory that is
  already in the normal form \<open>Path\<close> gives it and a name without a slash.
\<close>

definition path_join :: "string \<Rightarrow> string \<Rightarrow> string" where
  "path_join d name =
     (if d = ''.'' then name
      else if d = ''/'' \<or> d = ''//'' then d @ name
      else d @ ''/'' @ name)"

subsection \<open>\<open>FileProcessor.discover_images\<close>\<close>

text \<open>
  The allow-list is a set in the source. It is listed here in the order it is written;
  the order in which the loops visit it does not show in the result, which is sorted.
\<close>

definition SUPPORTED_EXTENSIONS :: "string list" where
  "SUPPORTED_EXTENSIONS =
     [''.png'', ''.jpg'', ''.jpeg'', ''.tiff'', ''.tif'', ''.bmp'', ''.gif'', ''.webp'', ''.pdf'']"

text \<open>\<open>str.upper\<close> on ASCII text.\<close>

definition upper_char :: "char \<Rightarrow> char" where
  "upper_char c =
     (if CHR ''a'' \<le> c \<and> c \<le> CHR ''z'' then char_of (of_char c - (32::nat)) else c)"

definition upper :: "string \<Rightarrow> string" where
  "upper s = map upper_char s"

text \<open>
  The patterns are \<open>f"*{ext}"\<close>: a star and then literal characters. On a POSIX path
  \<open>pathlib\<close> compares them with the name letter by letter, so a name matches when it ends
  with the characters after the star.
\<close>

definition endswith :: "string \<Rightarrow> string \<Rightarrow> bool" where
  "endswith name suf =
     (length suf \<le> length name \<and> drop (length name - length suf) name = suf)"

fun node_name :: "node \<Rightarrow> string" where
  "node_name (File n) = n"
| "node_name (Dir n _) = n"

text \<open>\<open>Path.glob("*" + suf)\<close>: the entries of the directory itself whose name matches.\<close>

definition glob :: "string \<Rightarrow> node list \<Rightarrow> string \<Rightarrow> string list" where
  "glob d entries suf =
     map (\<lambda>n. path_join d (node_name n)) (filter (\<lambda>n. endswith (node_name n) suf) entries)"

text \<open>
  \<open>Path.rglob("*" + suf)\<close>: the entries at any depth whose name matches, directories
  included.
\<close>

fun rglob_node :: "string \<Rightarrow> string \<Rightarrow> node \<Rightarrow> string list"
  and rglob :: "string \<Rightarrow> node list \<Rightarrow> string \<Rightarrow> string list" where
  "rglob_node d suf (File n) = (if endswith n suf then [path_join d n] else [])"
| "rglob_node d suf (Dir n sub) =
     (if endswith n suf then [path_join d n] else []) @ rglob (path_join d n) sub suf"
| "rglob d [] suf = []"
| "rglob d (x # xs) suf = rglob_node d suf x @ rglob d xs suf"

text \<open>The two \<open>for ext in self.SUPPORTED_EXTENSIONS\<close> loops, with \<open>image_files\<close>.\<close>

fun discover_loop ::
  "(string \<Rightarrow> string list) \<Rightarrow> string list \<Rightarrow> string list \<Rightarrow> string list" where
  "discover_loop g [] image_files = image_files"
| "discover_loop g (ext # exts) image_files =
     discover_loop g exts (image_files @ g ext @ g (upper ext))"

definition discover_images :: "FileProcessor \<Rightarrow> world \<Rightarrow> bool \<Rightarrow> string list" where
  "discover_images fp w recursive =
     (let image_files =
            (if recursive
             then discover_loop (rglob (input_dir fp) (listing w (input_dir fp)))
                    SUPPORTED_EXTENSIONS []
             else discover_loop (glob (input_dir fp) (listing w (input_dir fp)))
                    SUPPORTED_EXTENSIONS [])
      in sort image_files)"

text \<open>
  For stating what is discovered: every entry below a directory, at any depth, as its
  path and its name; the eighteen patterns; and the names that end with an extension of
  the allow-list written in lower case or in upper case.
\<close>

fun entries_node :: "string \<Rightarrow> node \<Rightarrow> (string \<times> string) list"
  and entries :: "string \<Rightarrow> node list \<Rightarrow> (string \<times> string) list" where
  "entries_node d (File n) = [(path_join d n, n)]"
| "entries_node d (Dir n sub) = (path_join d n, n) # entries (path_join d n) sub"
| "entries d [] = []"
| "entries d (x # xs) = entries_node d x @ entries d xs"



subsection \<open>\<open>FileProcessor.save_results\<close>\<close>

text \<open>One block of the text report.\<close>

definition txt_block :: "world \<Rightarrow> pydict \<Rightarrow> string" where
  "txt_block w result =
     replicate 80 CHR ''='' @ nl
     @ ''File: '' @ py_str w (dict_get result ''image_path'' (PStr ''Unknown'')) @ nl
     @ ''Status: '' @ (if truthy (dict_get_none result ''success'') then ''Success'' else ''Failed'') @ nl
     @ (if truthy (dict_get_none result ''success'')
        then ''Text:'' @ nl @ py_str w (dict_get result ''text'' (PStr [])) @ nl
        else ''Error: '' @ py_str w (dict_get result ''error'' (PStr ''Unknown error'')) @ nl)
     @ replicate 80 CHR ''='' @ nl @ nl"

text \<open>
  \<open>csv.DictWriter.writerows\<close> with the default \<open>extrasaction="raise"\<close> and
  \<open>restval=""\<close>: a row with a key outside \<open>fieldnames\<close> raises \<open>ValueError\<close>, after the
  rows before it were written; a key missing from a row is written as the empty string.
\<close>

fun writerows :: "world \<Rightarrow> string list \<Rightarrow> pydict list \<Rightarrow> pyval list list \<Rightarrow> exn option \<times> pyval list list" where
  "writerows w fieldnames [] rows = (None, rows)"
| "writerows w fieldnames (rowdict # rest) rows =
     (let wrong_fields = filter (\<lambda>k. k \<notin> set fieldnames) (keys rowdict)
      in if wrong_fields \<noteq> []
         then (Some (Exn ''ValueError''
                 (''dict contains fields not in fieldnames: ''
                  @ join '', '' (map (\<lambda>k. repr w (PStr k)) wrong_fields))), rows)
         else writerows w fieldnames rest
                (rows @ [map (\<lambda>k. dict_get rowdict k (PStr [])) fieldnames]))"

definition unbound_output_path :: exn where
  "unbound_output_path =
     Exn ''UnboundLocalError''
       (''cannot access local variable '' @ [CHR 0x27] @ ''output_path'' @ [CHR 0x27]
        @ '' where it is not associated with a value'')"

definition save_results ::
  "FileProcessor \<Rightarrow> world \<Rightarrow> pydict list \<Rightarrow> string \<Rightarrow> bool \<Rightarrow> files \<Rightarrow> (exn + string) \<times> files" where
  "save_results fp w results format timestamp fs =
     (let filename = (if timestamp then ''ocr_results_'' @ now_strftime w else ''ocr_results'')
      in if format = ''json'' then
           (let output_path = path_join (output_dir fp) (filename @ ''.json'')
            in case open_w w output_path of
                 Some e \<Rightarrow> (Inl e, fs)
               | None \<Rightarrow> (Inr output_path,
                           write_file fs output_path (JsonDump (PList (map PDict results)))))
         else if format = ''txt'' then
           (let output_path = path_join (output_dir fp) (filename @ ''.txt'')
            in case open_w w output_path of
                 Some e \<Rightarrow> (Inl e, fs)
               | None \<Rightarrow> (Inr output_path,
                           write_file fs output_path (TextFile (concat (map (txt_block w) results)))))
         else if format = ''csv'' then
           (let output_path = path_join (output_dir fp) (filename @ ''.csv'')
            in case open_w w output_path of
                 Some e \<Rightarrow> (Inl e, fs)
               | None \<Rightarrow>
                   (case results of
                      [] \<Rightarrow> (Inr output_path, write_file fs output_path (CsvFile []))
                    | first # _ \<Rightarrow>
                        (let fieldnames = keys first
                         in case writerows w fieldnames results [map PStr fieldnames] of
                              (Some e, rows) \<Rightarrow> (Inl e, write_file fs output_path (CsvFile rows))
                            | (None, rows) \<Rightarrow>
                                (Inr output_path, write_file fs output_path (CsvFile rows)))))
         else (Inl unbound_output_path, fs))"

subsection \<open>\<open>FileProcessor.get_statistics\<close>\<close>

text \<open>
  Floating-point numbers stay abstract: \<open>float_div a b\<close> is \<open>a / b\<close> on two integers
  with \<open>b\<close> not zero, \<open>float_times x n\<close> is \<open>x * n\<close>, \<open>float_of_int\<close> is the conversion
  that formatting an integer with \<open>.2f\<close> makes, and \<open>format_2f\<close> is \<open>f"{x:.2f}"\<close>.
\<close>

record 'f float_ops =
  float_div :: "int \<Rightarrow> int \<Rightarrow> 'f"
  float_times :: "'f \<Rightarrow> int \<Rightarrow> 'f"
  float_of_int :: "int \<Rightarrow> 'f"
  format_2f :: "'f \<Rightarrow> string"

definition truediv :: "'f float_ops \<Rightarrow> int \<Rightarrow> int \<Rightarrow> exn + 'f" where
  "truediv fo a b =
     (if b = 0 then Inl (Exn ''ZeroDivisionError'' ''division by zero'')
      else Inr (float_div fo a b))"

text \<open>\<open>len(v)\<close>\<close>

definition py_len :: "pyval \<Rightarrow> exn + int" where
  "py_len v =
     (case v of
        PStr s \<Rightarrow> Inr (int (length s))
      | PList xs \<Rightarrow> Inr (int (length xs))
      | PDict d \<Rightarrow> Inr (int (length d))
      | _ \<Rightarrow> Inl (Exn ''TypeError'' ''object has no len()''))"

text \<open>\<open>sum(len(r.get('text', '')) for r in results if r.get('success'))\<close>\<close>

fun sum_text_len :: "pydict list \<Rightarrow> int \<Rightarrow> exn + int" where
  "sum_text_len [] acc = Inr acc"
| "sum_text_len (r # rs) acc =
     (if truthy (dict_get_none r ''success'')
      then (case py_len (dict_get r ''text'' (PStr [])) of
              Inl e \<Rightarrow> Inl e
            | Inr n \<Rightarrow> sum_text_len rs (acc + n))
      else sum_text_len rs acc)"

definition get_statistics :: "'f float_ops \<Rightarrow> world \<Rightarrow> pydict list \<Rightarrow> exn + pydict" where
  "get_statistics fo w results =
     (let total = int (length results);
          successful = int (length (filter (\<lambda>r. truthy (dict_get_none r ''success'')) results));
          failed = total - successful
      in case sum_text_len results 0 of
           Inl e \<Rightarrow> Inl e
         | Inr total_chars \<Rightarrow>
             (case (if successful > 0 then truediv fo total_chars successful
                    else Inr (float_of_int fo 0)) of
                Inl e \<Rightarrow> Inl e
              | Inr avg_chars \<Rightarrow>
                  (case (if total > 0
                         then (case truediv fo successful total of
                                 Inl e \<Rightarrow> Inl e
                               | Inr q \<Rightarrow> Inr (format_2f fo (float_times fo q 100) @ ''%''))
                         else Inr ''0%'') of
                     Inl e \<Rightarrow> Inl e
                   | Inr success_rate \<Rightarrow>
                       Inr [(''total_images'', PInt total),
                            (''successful'', PInt successful),
                            (''failed'', PInt failed),
                            (''success_rate'', PStr success_rate),
                            (''total_characters'', PInt total_chars),
                            (''average_characters_per_image'', PStr (format_2f fo avg_chars)),
                            (''timestamp'', PStr (now_isoformat w))])))"

section \<open>docling\_gutenocr\_combined.py\<close>

text \<open>
  The structure-extraction library is outside the repository. A converted document is
  what the code reads from it: the Markdown export (which may raise), and the attributes
  the code tests with \<open>hasattr\<close>, \<open>None\<close> when the attribute is absent. A table gives its
  \<open>export_to_dataframe().to_dict()\<close> (which may raise) and its caption.
\<close>

record docling_table =
  export_to_dataframe :: "(exn + pyval) option"
  caption :: "pyval option"

record docling_document =
  export_to_markdown :: "exn + string"
  pages :: "nat option"
  tables :: "docling_table list option"
  metadata :: "pyval option"

record DoclingGutenOCRProcessor =
  use_docling :: bool
  docling_converter :: "string \<Rightarrow> exn + docling_document"
  gutenocr :: GutenOCREngine
  file_processor :: FileProcessor

subsection \<open>\<open>DoclingGutenOCRProcessor._process_with_docling\<close>\<close>

text \<open>The loop over \<open>conv_result.document.tables\<close>, with the list \<open>doc_result["tables"]\<close>.\<close>

fun tables_loop :: "docling_table list \<Rightarrow> pyval list \<Rightarrow> exn + pyval list" where
  "tables_loop [] acc = Inr acc"
| "tables_loop (table # rest) acc =
     (case (case export_to_dataframe table of None \<Rightarrow> Inr (PDict []) | Some r \<Rightarrow> r) of
        Inl e \<Rightarrow> Inl e
      | Inr data \<Rightarrow>
          tables_loop rest
            (acc @ [PDict [(''data'', data),
                           (''caption'', (case caption table of None \<Rightarrow> PStr [] | Some c \<Rightarrow> c))]]))"

definition process_with_docling_body ::
  "DoclingGutenOCRProcessor \<Rightarrow> string \<Rightarrow> bool \<Rightarrow> exn + pydict" where
  "process_with_docling_body proc file_path extract_tables =
     (case docling_converter proc file_path of
        Inl e \<Rightarrow> Inl e
      | Inr document \<Rightarrow>
          (case export_to_markdown document of
             Inl e \<Rightarrow> Inl e
           | Inr text \<Rightarrow>
               (let structure =
                      PDict [(''pages'', PInt (case pages document of None \<Rightarrow> 0 | Some n \<Rightarrow> int n)),
                             (''elements'', PList [])];
                    meta = (case metadata document of None \<Rightarrow> PDict [] | Some m \<Rightarrow> m)
                in case (if extract_tables
                         then (case tables document of
                                 None \<Rightarrow> Inr []
                               | Some ts \<Rightarrow> tables_loop ts [])
                         else Inr []) of
                     Inl e \<Rightarrow> Inl e
                   | Inr tbls \<Rightarrow>
                       Inr [(''text'', PStr text),
                            (''structure'', structure),
                            (''tables'', PList tbls),
                            (''metadata'', meta)])))"

definition process_with_docling ::
  "DoclingGutenOCRProcessor \<Rightarrow> string \<Rightarrow> bool \<Rightarrow> exn + pydict" where
  "process_with_docling proc file_path extract_tables =
     try_except (process_with_docling_body proc file_path extract_tables)
       (\<lambda>e. Inr [(''error'', PStr (exn_str e))])"

subsection \<open>\<open>DoclingGutenOCRProcessor._merge_results\<close>\<close>

text \<open>Iteration over a value, \<open>v.get(k, default)\<close> on a value, and \<open>sep.join(xs)\<close>.\<close>

definition py_iter :: "pyval \<Rightarrow> exn + pyval list" where
  "py_iter v =
     (case v of
        PList xs \<Rightarrow> Inr xs
      | PStr s \<Rightarrow> Inr (map (\<lambda>c. PStr [c]) s)
      | PDict d \<Rightarrow> Inr (map (\<lambda>(k, _). PStr k) d)
      | _ \<Rightarrow> Inl (Exn ''TypeError'' ''object is not iterable''))"

definition no_attribute_get :: exn where
  "no_attribute_get =
     Exn ''AttributeError'' (''object has no attribute '' @ [CHR 0x27] @ ''get'' @ [CHR 0x27])"

definition py_get :: "pyval \<Rightarrow> string \<Rightarrow> pyval \<Rightarrow> exn + pyval" where
  "py_get v k dflt = (case v of PDict d \<Rightarrow> Inr (dict_get d k dflt) | _ \<Rightarrow> Inl no_attribute_get)"

fun the_strs :: "pyval list \<Rightarrow> string list option" where
  "the_strs [] = Some []"
| "the_strs (PStr s # xs) = (case the_strs xs of None \<Rightarrow> None | Some ss \<Rightarrow> Some (s # ss))"
| "the_strs (_ # xs) = None"

definition py_join :: "string \<Rightarrow> pyval list \<Rightarrow> exn + string" where
  "py_join sep xs =
     (case the_strs xs of
        None \<Rightarrow> Inl (Exn ''TypeError'' ''sequence item: expected str instance'')
      | Some ss \<Rightarrow> Inr (join sep ss))"

text \<open>The loop \<open>for idx, table in enumerate(docling_result["tables"], 1)\<close>.\<close>

fun merge_tables :: "world \<Rightarrow> int \<Rightarrow> pyval list \<Rightarrow> pyval list \<Rightarrow> exn + pyval list" where
  "merge_tables w idx [] merged_text = Inr merged_text"
| "merge_tables w idx (table # rest) merged_text =
     (let merged_text = merged_text @ [PStr (nl @ ''Table '' @ py_str w (PInt idx) @ '':'')]
      in case py_get table ''caption'' PNone of
           Inl e \<Rightarrow> Inl e
         | Inr c \<Rightarrow>
             (let merged_text =
                    (if truthy c then merged_text @ [PStr (''Caption: '' @ py_str w c)]
                     else merged_text)
              in case py_get table ''data'' (PDict []) of
                   Inl e \<Rightarrow> Inl e
                 | Inr data \<Rightarrow>
                     merge_tables w (idx + 1) rest
                       (merged_text @ [PStr (py_str w data), PStr nl])))"

definition merge_results :: "world \<Rightarrow> pyval \<Rightarrow> pyval \<Rightarrow> exn + string" where
  "merge_results w docling_result gutenocr_result =
     (case docling_result of
        PDict d \<Rightarrow>
          (let merged_text = [];
               merged_text =
                 (if truthy (dict_get_none d ''text'')
                  then merged_text
                       @ [PStr (''=== DOCUMENT STRUCTURE (Docling) ==='' @ nl),
                          dict_get_none d ''text'',
                          PStr nl]
                  else merged_text)
           in case (if truthy (dict_get_none d ''tables'')
                    then (case py_iter (dict_get_none d ''tables'') of
                            Inl e \<Rightarrow> Inl e
                          | Inr ts \<Rightarrow>
                              merge_tables w 1 ts
                                (merged_text @ [PStr (nl @ ''=== EXTRACTED TABLES ==='' @ nl)]))
                    else Inr merged_text) of
                Inl e \<Rightarrow> Inl e
              | Inr merged_text \<Rightarrow>
                  (case gutenocr_result of
                     PDict g \<Rightarrow>
                       (let merged_text =
                              (if truthy (dict_get_none g ''success'')
                                  \<and> truthy (dict_get_none g ''text'')
                               then merged_text
                                    @ [PStr (nl @ ''=== OCR CONTENT (GutenOCR) ==='' @ nl),
                                       dict_get_none g ''text'']
                               else merged_text)
                        in py_join nl merged_text)
                   | _ \<Rightarrow> Inl no_attribute_get))
      | _ \<Rightarrow> Inl no_attribute_get)"

subsection \<open>\<open>DoclingGutenOCRProcessor.process_document\<close>\<close>

text \<open>
  A statement of the \<open>try\<close> block acts on the dictionary \<open>result\<close>: it gives the
  exception it raised, if any, and \<open>result\<close> as it then stands, which is what the
  \<open>except\<close> branch goes on with.
\<close>

type_synonym stmt = "pydict \<Rightarrow> exn option \<times> pydict"

definition seq :: "stmt \<Rightarrow> stmt \<Rightarrow> stmt" where
  "seq s1 s2 result = (case s1 result of (Some e, r) \<Rightarrow> (Some e, r) | (None, r) \<Rightarrow> s2 r)"

text \<open>\<open>result[k]\<close>, \<open>result[k] = v\<close> and \<open>result["metadata"][k] = v\<close>.\<close>

definition dict_item :: "pydict \<Rightarrow> string \<Rightarrow> exn + pyval" where
  "dict_item d k = (case map_of d k of None \<Rightarrow> Inl (Exn ''KeyError'' k) | Some v \<Rightarrow> Inr v)"

definition assign :: "string \<Rightarrow> pyval \<Rightarrow> stmt" where
  "assign k v result = (None, dict_set result k v)"

definition assign_metadata :: "string \<Rightarrow> pyval \<Rightarrow> stmt" where
  "assign_metadata k v result =
     (case dict_item result ''metadata'' of
        Inl e \<Rightarrow> (Some e, result)
      | Inr (PDict m) \<Rightarrow> (None, dict_set result ''metadata'' (PDict (dict_set m k v)))
      | Inr _ \<Rightarrow> (Some (Exn ''TypeError'' ''object does not support item assignment''), result))"

text \<open>Step 1: process with Docling if available.\<close>

definition step_docling :: "DoclingGutenOCRProcessor \<Rightarrow> string \<Rightarrow> bool \<Rightarrow> bool \<Rightarrow> stmt" where
  "step_docling proc file_path extract_structure extract_tables result =
     (if use_docling proc \<and> extract_structure
      then (case process_with_docling proc file_path extract_tables of
              Inl e \<Rightarrow> (Some e, result)
            | Inr docling_result \<Rightarrow>
                seq (assign ''docling_structure'' (PDict docling_result))
                    (assign_metadata ''docling_processed'' (PBool True)) result)
      else (None, result))"

text \<open>Step 2: process with GutenOCR.\<close>

definition step_gutenocr :: "DoclingGutenOCRProcessor \<Rightarrow> string \<Rightarrow> bool \<Rightarrow> stmt" where
  "step_gutenocr proc file_path ocr_images result =
     (if ocr_images
      then (case process_image (gutenocr proc) file_path ''reading'' ''TEXT2D'' 4096 None of
              Inl e \<Rightarrow> (Some e, result)
            | Inr ocr_result \<Rightarrow>
                seq (assign ''gutenocr_ocr'' (PDict ocr_result))
                 (seq (assign_metadata ''gutenocr_processed'' (PBool True))
                      (if truthy (dict_get_none ocr_result ''success'')
                       then assign ''combined_text'' (dict_get ocr_result ''text'' (PStr []))
                       else (\<lambda>r. (None, r)))) result)
      else (None, result))"

text \<open>Step 3: combine results.\<close>

definition step_combine :: "world \<Rightarrow> stmt" where
  "step_combine w result =
     (case dict_item result ''docling_structure'' of
        Inl e \<Rightarrow> (Some e, result)
      | Inr ds \<Rightarrow>
          (case (if truthy ds then dict_item result ''gutenocr_ocr'' else Inr ds) of
             Inl e \<Rightarrow> (Some e, result)
           | Inr both \<Rightarrow>
               if truthy both then
                 (case merge_results w ds both of
                    Inl e \<Rightarrow> (Some e, result)
                  | Inr merged \<Rightarrow>
                      seq (assign ''combined_text'' (PStr merged))
                          (assign_metadata ''processing_mode'' (PStr ''combined'')) result)
               else if truthy ds then
                 (case py_get ds ''text'' (PStr []) of
                    Inl e \<Rightarrow> (Some e, result)
                  | Inr t \<Rightarrow>
                      seq (assign ''combined_text'' t)
                          (assign_metadata ''processing_mode'' (PStr ''docling_only'')) result)
               else
                 (case dict_item result ''gutenocr_ocr'' of
                    Inl e \<Rightarrow> (Some e, result)
                  | Inr go \<Rightarrow>
                      if truthy go then
                        (case py_get go ''text'' (PStr []) of
                           Inl e \<Rightarrow> (Some e, result)
                         | Inr t \<Rightarrow>
                             seq (assign ''combined_text'' t)
                                 (assign_metadata ''processing_mode'' (PStr ''gutenocr_only'')) result)
                      else (None, result))))"

definition process_document ::
  "DoclingGutenOCRProcessor \<Rightarrow> world \<Rightarrow> string \<Rightarrow> bool \<Rightarrow> bool \<Rightarrow> bool \<Rightarrow> exn + pydict" where
  "process_document proc w file_path extract_structure extract_tables ocr_images =
     (let result = [(''file_path'', PStr file_path),
                    (''timestamp'', PStr (now_isoformat w)),
                    (''docling_structure'', PNone),
                    (''gutenocr_ocr'', PNone),
                    (''combined_text'', PStr []),
                    (''metadata'', PDict [])]
      in case seq (step_docling proc file_path extract_structure extract_tables)
               (seq (step_gutenocr proc file_path ocr_images)
                 (seq (step_combine w) (assign ''success'' (PBool True)))) result of
           (None, result) \<Rightarrow> Inr result
         | (Some e, result) \<Rightarrow>
             (case seq (assign ''success'' (PBool False))
                       (assign ''error'' (PStr (exn_str e))) result of
                (None, result) \<Rightarrow> Inr result
              | (Some e', _) \<Rightarrow> Inl e'))"

subsection \<open>\<open>DoclingGutenOCRProcessor.batch_process\<close>\<close>

text \<open>
  The method points the file processor at \<open>Path(input_dir)\<close> and \<open>Path(output_dir)\<close>,
  discovers the files, processes each one and writes the list of results as one JSON file
  under \<open>Path(output_dir)\<close>. Every value of
  \<open>pyval\<close> can be serialised, so in this model the write fails only when the file cannot
  be opened.
\<close>

fun combined_batch_loop ::
  "DoclingGutenOCRProcessor \<Rightarrow> world \<Rightarrow> string list \<Rightarrow> bool \<Rightarrow> bool \<Rightarrow> bool \<Rightarrow> pydict list
   \<Rightarrow> exn + pydict list" where
  "combined_batch_loop proc w [] extract_structure extract_tables ocr_images results = Inr results"
| "combined_batch_loop proc w (file_path # rest) extract_structure extract_tables ocr_images results =
     (case process_document proc w file_path extract_structure extract_tables ocr_images of
        Inl e \<Rightarrow> Inl e
      | Inr result \<Rightarrow>
          combined_batch_loop proc w rest extract_structure extract_tables ocr_images
            (results @ [result]))"

definition DoclingGutenOCRProcessor_batch_process ::
  "DoclingGutenOCRProcessor \<Rightarrow> world \<Rightarrow> string \<Rightarrow> string \<Rightarrow> bool \<Rightarrow> bool \<Rightarrow> bool \<Rightarrow> files
   \<Rightarrow> (exn + pydict list) \<times> files" where
  "DoclingGutenOCRProcessor_batch_process proc w input_dir' output_dir' extract_structure
       extract_tables ocr_images fs =
     (let fp = (file_processor proc)\<lparr>input_dir := Path input_dir',
                                       output_dir := Path output_dir'\<rparr>;
          files = discover_images fp w True
      in case combined_batch_loop proc w files extract_structure extract_tables ocr_images [] of
           Inl e \<Rightarrow> (Inl e, fs)
         | Inr results \<Rightarrow>
             (let output_path =
                    path_join (Path output_dir')
                      (''combined_results_'' @ now_strftime w @ ''.json'')
              in case open_w w output_path of
                   Some e \<Rightarrow> (Inl e, fs)
                 | None \<Rightarrow>
                     (Inr results,
                      write_file fs output_path (JsonDump (PList (map PDict results))))))"

subsection \<open>The merge policy and the payloads\<close>

text \<open>
  For stating the merge policy: the three sections of the merged text, each present only
  when it has content (a structure text, at least one table, an OCR text of a successful
  run), and the blocks of the tables numbered from \<open>idx\<close>.  \<open>metadata_get\<close> is
  \<open>result["metadata"].get(k)\<close>.  The last three predicates are the shapes of the
  dictionaries that the two stages return.
\<close>

fun table_blocks :: "world \<Rightarrow> int \<Rightarrow> pyval list \<Rightarrow> string list" where
  "table_blocks w idx [] = []"
| "table_blocks w idx (table # rest) =
     (nl @ ''Table '' @ py_str w (PInt idx) @ '':'')
     # (case table of
          PDict t \<Rightarrow>
            (if truthy (dict_get_none t ''caption'')
             then [''Caption: '' @ py_str w (dict_get_none t ''caption'')] else [])
            @ [py_str w (dict_get t ''data'' (PDict [])), nl]
        | _ \<Rightarrow> [])
     @ table_blocks w (idx + 1) rest"

definition structure_section :: "pydict \<Rightarrow> string list" where
  "structure_section d =
     (case dict_get_none d ''text'' of
        PStr t \<Rightarrow> if t \<noteq> [] then [''=== DOCUMENT STRUCTURE (Docling) ==='' @ nl, t, nl] else []
      | _ \<Rightarrow> [])"

definition tables_section :: "world \<Rightarrow> pydict \<Rightarrow> string list" where
  "tables_section w d =
     (case dict_get_none d ''tables'' of
        PList ts \<Rightarrow>
          if ts \<noteq> [] then (nl @ ''=== EXTRACTED TABLES ==='' @ nl) # table_blocks w 1 ts else []
      | _ \<Rightarrow> [])"

definition ocr_section :: "pydict \<Rightarrow> string list" where
  "ocr_section g =
     (case (dict_get_none g ''success'', dict_get_none g ''text'') of
        (PBool True, PStr t) \<Rightarrow>
          if t \<noteq> [] then [nl @ ''=== OCR CONTENT (GutenOCR) ==='' @ nl, t] else []
      | _ \<Rightarrow> [])"

definition is_table :: "pyval \<Rightarrow> bool" where
  "is_table v = (\<exists>data c. v = PDict [(''data'', data), (''caption'', c)])"

definition docling_payload :: "pydict \<Rightarrow> bool" where
  "docling_payload d =
     ((\<exists>m. d = [(''error'', PStr m)])
      \<or> (\<exists>t s tbls meta.
            d = [(''text'', PStr t), (''structure'', s), (''tables'', PList tbls), (''metadata'', meta)]
            \<and> list_all is_table tbls))"

definition ocr_payload :: "pydict \<Rightarrow> bool" where
  "ocr_payload g =
     ((\<exists>p m. g = [(''success'', PBool False), (''image_path'', PStr p), (''error'', PStr m)])
      \<or> (\<exists>p tt fmt t pr.
            g = [(''success'', PBool True), (''image_path'', PStr p), (''task_type'', PStr tt),
                 (''output_format'', PStr fmt), (''text'', PStr t), (''prompt'', PStr pr)]))"

definition metadata_get :: "pydict \<Rightarrow> string \<Rightarrow> pyval" where
  "metadata_get result k =
     (case dict_get_none result ''metadata'' of PDict m \<Rightarrow> dict_get_none m k | _ \<Rightarrow> PNone)"

section \<open>Concrete inputs\<close>

text \<open>
  An engine whose image library fails on one path and whose model fails on another, a
  world with a small directory tree under \<open>input\<close> (its \<open>repr\<close> covers the values
  that occur below), and a file processor on it. The theorems below are evaluated on them.
\<close>

definition example_engine :: GutenOCREngine where
  "example_engine =
     \<lparr>image_open = (\<lambda>p. if p = ''input/missing.png''
                          then Some (Exn ''FileNotFoundError'' ''No such file or directory'')
                          else None),
      generate_decode = (\<lambda>p prompt n. if p = ''input/huge.png''
                          then Inl (Exn ''RuntimeError'' ''out of memory'')
                          else Inr [''text of '' @ p])\<rparr>"

definition example_world :: world where
  "example_world =
     \<lparr>now_strftime = ''20240101_120000'',
      now_isoformat = ''2024-01-01T12:00:00'',
      listing = (\<lambda>d. if d = ''input''
                      then [File ''missing.png'', File ''b.png'', File ''scan.Png'',
                            File ''notes.txt'',
                            Dir ''old.pdf'' [File ''a.JPG'', File ''c.jpeg.bak'']]
                      else []),
      open_w = (\<lambda>p. None),
      repr = (\<lambda>v. case v of
                      PNone \<Rightarrow> ''None''
                    | PBool b \<Rightarrow> (if b then ''True'' else ''False'')
                    | PInt i \<Rightarrow> (if i = 1 then ''1'' else if i = 2 then ''2'' else ''<int>'')
                    | PList xs \<Rightarrow> (if xs = [] then ''[]'' else ''<list>'')
                    | PDict d \<Rightarrow> (if d = [] then ''{}'' else ''<dict>'')
                    | PStr s \<Rightarrow> [CHR 0x27] @ s @ [CHR 0x27])\<rparr>"

definition example_fp :: FileProcessor where
  "example_fp = \<lparr>input_dir = ''input'', output_dir = ''output''\<rparr>"

definition example_processor :: DoclingGutenOCRProcessor where
  "example_processor =
     \<lparr>use_docling = True,
      docling_converter =
        (\<lambda>p. if p = ''input/broken.pdf'' \<or> p = ''input/missing.png''
             then Inl (Exn ''ConversionError'' ''cannot convert'')
             else Inr \<lparr>export_to_markdown = Inr ''# Title'',
                       pages = Some 1,
                       tables = (if p = ''input/old.pdf''
                                 then Some [\<lparr>export_to_dataframe = Some (Inr (PDict [])),
                                             caption = Some (PStr ''Totals'')\<rparr>]
                                 else Some []),
                       metadata = None\<rparr>),
      gutenocr = example_engine,
      file_processor = example_fp\<rparr>"

section \<open>Prompt resolution\<close>

text \<open>
  C4. Prompt resolution is a total function of the pair (task type, output format): each
  of the nine pairs of the static table gives its fixed instruction, and every other pair
  gives the default instruction "Read all text in the image.".
\<close>

theorem generate_prompt_table_or_default:
  "generate_prompt ''reading'' ''TEXT'' =
     ''Read all text in the image and return a single TEXT string, linearized left-to-right/top-to-bottom.''
   \<and> generate_prompt ''reading'' ''TEXT2D'' =
     ''Return a layout-sensitive TEXT2D representation of the image.''
   \<and> generate_prompt ''reading'' ''LINES'' = ''Return line-by-line OCR as LINES with bounding boxes.''
   \<and> generate_prompt ''reading'' ''WORDS'' = ''Return word-by-word OCR as WORDS with bounding boxes.''
   \<and> generate_prompt ''reading'' ''PARAGRAPHS'' =
     ''Return paragraph-wise OCR as PARAGRAPHS with bounding boxes.''
   \<and> generate_prompt ''reading'' ''LATEX'' = ''Extract all LaTeX expressions with bounding boxes.''
   \<and> generate_prompt ''detection'' ''BOX'' =
     ''Highlight all text regions in the image by returning their bounding boxes as a JSON array.''
   \<and> generate_prompt ''localized_reading'' ''TEXT'' =
     ''What does it say in the specified region of the image?''
   \<and> generate_prompt ''conditional_detection'' ''BOX'' =
     ''Find and return bounding boxes for the specified text query.''
   \<and> ((task_type, output_format) \<notin> set
         [(''reading'', ''TEXT''), (''reading'', ''TEXT2D''), (''reading'', ''LINES''),
          (''reading'', ''WORDS''), (''reading'', ''PARAGRAPHS''), (''reading'', ''LATEX''),
          (''detection'', ''BOX''), (''localized_reading'', ''TEXT''),
          (''conditional_detection'', ''BOX'')]
        \<longrightarrow> generate_prompt task_type output_format = ''Read all text in the image.'')"
  by (simp add: generate_prompt_def prompts_def)

theorem generate_prompt_table_or_default_witness:
  "generate_prompt ''reading'' ''BOX'' = ''Read all text in the image.''
   \<and> generate_prompt ''translate'' ''TEXT'' = ''Read all text in the image.''"
  using generate_prompt_table_or_default [of "''reading''" "''BOX''"]
    generate_prompt_table_or_default [of "''translate''" "''TEXT''"]
  by simp

section \<open>The OCR engine\<close>

lemma process_image_cases:
  "process_image eng image_path task_type output_format max_new_tokens custom_prompt =
     Inr (case process_image_body eng image_path task_type output_format max_new_tokens
                 custom_prompt of
            Inr r \<Rightarrow> r
          | Inl e \<Rightarrow> [(''success'', PBool False), (''image_path'', PStr image_path),
                      (''error'', PStr (exn_str e))])"
  by (simp add: process_image_def try_except_def split: sum.splits)

lemma process_image_body_path:
  "process_image_body eng image_path task_type output_format max_new_tokens custom_prompt = Inr r
   \<Longrightarrow> dict_get_none r ''image_path'' = PStr image_path"
  by (auto simp: process_image_body_def dict_get_def Let_def
      split: option.splits sum.splits list.splits)

lemma process_image_path:
  "process_image eng image_path task_type output_format max_new_tokens custom_prompt = Inr r
   \<Longrightarrow> dict_get_none r ''image_path'' = PStr image_path"
  by (auto simp: process_image_cases dict_get_def dest: process_image_body_path split: sum.splits)

lemma engine_batch_loop_map:
  "engine_batch_loop eng ps tt fmt n acc =
     Inr (acc @ map (\<lambda>p. projr (process_image eng p tt fmt n None)) ps)"
  by (induction ps arbitrary: acc) (auto simp: process_image_cases)

text \<open>
  C3. \<open>process_image\<close> returns a result dictionary on every input and never raises. When
  loading the image or running the model raises, the result has \<open>success\<close> false and
  \<open>error\<close> the string of the exception (also when the decoder returns no text, which is an
  index error); otherwise it has \<open>success\<close> true and \<open>text\<close> the first decoded string.
\<close>

theorem process_image_never_raises:
  "\<exists>result.
     process_image eng image_path task_type output_format max_new_tokens custom_prompt = Inr result
     \<and> dict_get_none result ''image_path'' = PStr image_path
     \<and> (case image_open eng image_path of
          Some e \<Rightarrow>
            dict_get_none result ''success'' = PBool False
            \<and> dict_get_none result ''error'' = PStr (exn_str e)
        | None \<Rightarrow>
            (case generate_decode eng image_path
                    (case custom_prompt of
                       None \<Rightarrow> generate_prompt task_type output_format
                     | Some p \<Rightarrow> if p \<noteq> [] then p else generate_prompt task_type output_format)
                    max_new_tokens of
               Inl e \<Rightarrow>
                 dict_get_none result ''success'' = PBool False
                 \<and> dict_get_none result ''error'' = PStr (exn_str e)
             | Inr [] \<Rightarrow>
                 dict_get_none result ''success'' = PBool False
                 \<and> dict_get_none result ''error'' = PStr ''list index out of range''
             | Inr (t # ts) \<Rightarrow>
                 dict_get_none result ''success'' = PBool True
                 \<and> dict_get_none result ''text'' = PStr t))"
proof -
  let ?r = "case process_image_body eng image_path task_type output_format max_new_tokens
                   custom_prompt of
              Inr r \<Rightarrow> r
            | Inl e \<Rightarrow> [(''success'', PBool False), (''image_path'', PStr image_path),
                        (''error'', PStr (exn_str e))]"
  have "dict_get_none ?r ''image_path'' = PStr image_path"
    by (simp add: process_image_body_def dict_get_def Let_def
        split: option.splits sum.splits list.splits)
  moreover have "(case image_open eng image_path of
          Some e \<Rightarrow>
            dict_get_none ?r ''success'' = PBool False
            \<and> dict_get_none ?r ''error'' = PStr (exn_str e)
        | None \<Rightarrow>
            (case generate_decode eng image_path
                    (case custom_prompt of
                       None \<Rightarrow> generate_prompt task_type output_format
                     | Some p \<Rightarrow> if p \<noteq> [] then p else generate_prompt task_type output_format)
                    max_new_tokens of
               Inl e \<Rightarrow>
                 dict_get_none ?r ''success'' = PBool False
                 \<and> dict_get_none ?r ''error'' = PStr (exn_str e)
             | Inr [] \<Rightarrow>
                 dict_get_none ?r ''success'' = PBool False
                 \<and> dict_get_none ?r ''error'' = PStr ''list index out of range''
             | Inr (t # ts) \<Rightarrow>
                 dict_get_none ?r ''success'' = PBool True
                 \<and> dict_get_none ?r ''text'' = PStr t))"
    by (simp add: process_image_body_def dict_get_def Let_def
        split: option.splits sum.splits list.splits)
  ultimately show ?thesis
    unfolding process_image_cases by blast
qed

theorem process_image_never_raises_witness:
  "(\<exists>result. process_image example_engine ''input/missing.png'' ''reading'' ''TEXT'' 4096 None
        = Inr result
      \<and> dict_get_none result ''success'' = PBool False
      \<and> dict_get_none result ''error'' = PStr ''No such file or directory'')
   \<and> (\<exists>result. process_image example_engine ''input/huge.png'' ''reading'' ''TEXT'' 4096 None
        = Inr result
      \<and> dict_get_none result ''success'' = PBool False
      \<and> dict_get_none result ''error'' = PStr ''out of memory'')
   \<and> (\<exists>result. process_image example_engine ''input/b.png'' ''reading'' ''TEXT'' 4096 (Some [])
        = Inr result
      \<and> dict_get_none result ''success'' = PBool True
      \<and> dict_get_none result ''text'' = PStr ''text of input/b.png'')"
  using process_image_never_raises
      [of example_engine "''input/missing.png''" "''reading''" "''TEXT''" 4096 None]
    process_image_never_raises
      [of example_engine "''input/huge.png''" "''reading''" "''TEXT''" 4096 None]
    process_image_never_raises
      [of example_engine "''input/b.png''" "''reading''" "''TEXT''" 4096 "Some []"]
  by (auto simp: example_engine_def)

text \<open>
  C10. \<open>GutenOCREngine.batch_process\<close> returns one result per input path, in the order of
  the input: the i-th result is the result of \<open>process_image\<close> on the i-th path, and its
  \<open>image_path\<close> is that path whether the image was processed or not.
\<close>

theorem batch_process_preserves_order:
  "\<exists>results.
     GutenOCREngine_batch_process eng image_paths task_type output_format max_new_tokens = Inr results
     \<and> length results = length image_paths
     \<and> (\<forall>i < length image_paths.
          process_image eng (image_paths ! i) task_type output_format max_new_tokens None
            = Inr (results ! i)
          \<and> dict_get_none (results ! i) ''image_path'' = PStr (image_paths ! i))"
  by (auto simp: GutenOCREngine_batch_process_def engine_batch_loop_map process_image_cases
      intro!: process_image_path)

theorem batch_process_preserves_order_witness:
  "\<exists>results.
     GutenOCREngine_batch_process example_engine [''input/b.png'', ''input/missing.png'']
       ''reading'' ''TEXT'' 4096 = Inr results
     \<and> length results = 2
     \<and> dict_get_none (results ! 0) ''image_path'' = PStr ''input/b.png''
     \<and> dict_get_none (results ! 1) ''image_path'' = PStr ''input/missing.png''"
  using batch_process_preserves_order
      [of example_engine "[''input/b.png'', ''input/missing.png'']" "''reading''" "''TEXT''" 4096]
  by (auto simp: All_less_Suc)

section \<open>The file processor\<close>

subsection \<open>Discovery\<close>


















subsection \<open>Saving and statistics\<close>

lemma writerows_ok:
  "\<forall>r\<in>set rs. set (keys r) \<subseteq> set fieldnames \<Longrightarrow>
   writerows w fieldnames rs rows =
     (None, rows @ map (\<lambda>r. map (\<lambda>k. dict_get r k (PStr [])) fieldnames) rs)"
  by (induction rs arbitrary: rows) (auto simp: filter_empty_conv Let_def)

lemma map_of_write_file: "map_of (write_file fs path c) path = Some c"
  by (simp add: write_file_def)

lemma sum_text_len_error: "sum_text_len rs acc = Inl e \<Longrightarrow> exn_class e = ''TypeError''"
  by (induction rs arbitrary: acc) (auto simp: py_len_def split: if_splits sum.splits pyval.splits)

lemma sum_text_len_none:
  "filter (\<lambda>r. truthy (dict_get_none r ''success'')) rs = [] \<Longrightarrow> sum_text_len rs acc = Inr acc"
  by (induction rs arbitrary: acc) (auto split: if_splits)

text \<open>
  C6. On the empty result list \<open>get_statistics\<close> returns, with \<open>success_rate\<close> the string
  "0%" and the average formatted from zero. For every result list in which no result
  succeeded it returns with the average formatted from zero, the division by the success
  count not being made; and on no result list does it raise a division-by-zero error.
\<close>

theorem get_statistics_division_guarded:
  "(\<exists>d. get_statistics fo w [] = Inr d
        \<and> dict_get_none d ''success_rate'' = PStr ''0%''
        \<and> dict_get_none d ''average_characters_per_image'' = PStr (format_2f fo (float_of_int fo 0)))
   \<and> (filter (\<lambda>r. truthy (dict_get_none r ''success'')) results = [] \<longrightarrow>
        (\<exists>d. get_statistics fo w results = Inr d
            \<and> dict_get_none d ''successful'' = PInt 0
            \<and> dict_get_none d ''average_characters_per_image''
                = PStr (format_2f fo (float_of_int fo 0))))
   \<and> (\<forall>e. get_statistics fo w results = Inl e \<longrightarrow> exn_class e \<noteq> ''ZeroDivisionError'')"
proof (intro conjI allI impI)
  show "\<exists>d. get_statistics fo w [] = Inr d
        \<and> dict_get_none d ''success_rate'' = PStr ''0%''
        \<and> dict_get_none d ''average_characters_per_image'' = PStr (format_2f fo (float_of_int fo 0))"
    by (simp add: get_statistics_def dict_get_def)
next
  assume "filter (\<lambda>r. truthy (dict_get_none r ''success'')) results = []"
  then show "\<exists>d. get_statistics fo w results = Inr d
            \<and> dict_get_none d ''successful'' = PInt 0
            \<and> dict_get_none d ''average_characters_per_image''
                = PStr (format_2f fo (float_of_int fo 0))"
    by (simp add: get_statistics_def sum_text_len_none truediv_def Let_def dict_get_def)
next
  fix e assume "get_statistics fo w results = Inl e"
  then show "exn_class e \<noteq> ''ZeroDivisionError''"
    by (auto simp: get_statistics_def truediv_def Let_def
        dest!: sum_text_len_error split: sum.splits if_splits)
qed

theorem get_statistics_division_guarded_witness:
  "\<forall>fo :: rat float_ops.
     \<exists>d. get_statistics fo example_world
            [[(''success'', PBool False), (''image_path'', PStr ''input/missing.png''),
              (''error'', PStr ''No such file or directory'')]] = Inr d
        \<and> dict_get_none d ''successful'' = PInt 0
        \<and> dict_get_none d ''average_characters_per_image'' = PStr (format_2f fo (float_of_int fo 0))"
proof
  fix fo :: "rat float_ops"
  have none_succeeded:
    "filter (\<lambda>r. truthy (dict_get_none r ''success''))
       [[(''success'', PBool False), (''image_path'', PStr ''input/missing.png''),
         (''error'', PStr ''No such file or directory'')]] = []"
    by (simp add: dict_get_def)
  from get_statistics_division_guarded
        [of fo example_world
          "[[(''success'', PBool False), (''image_path'', PStr ''input/missing.png''),
             (''error'', PStr ''No such file or directory'')]]"]
    none_succeeded
  show "\<exists>d. get_statistics fo example_world
            [[(''success'', PBool False), (''image_path'', PStr ''input/missing.png''),
              (''error'', PStr ''No such file or directory'')]] = Inr d
        \<and> dict_get_none d ''successful'' = PInt 0
        \<and> dict_get_none d ''average_characters_per_image'' = PStr (format_2f fo (float_of_int fo 0))"
    by blast
qed

text \<open>
  C7. For a non-empty result list whose dictionaries all have the key set of the first
  one, \<open>save_results\<close> with format "csv" returns the path of the file it wrote (when the
  file can be opened), and the file holds a header row that is the keys of the first
  result, in their order, and then one row per result with the values under those keys.
\<close>

theorem save_results_csv_header:
  assumes "results \<noteq> []"
    and "\<forall>r\<in>set results. set (keys r) = set (keys (hd results))"
    and "open_w w (path_join (output_dir fp)
           ((if timestamp then ''ocr_results_'' @ now_strftime w else ''ocr_results'') @ ''.csv'')) = None"
  shows "\<exists>output_path fs' rows.
     save_results fp w results ''csv'' timestamp fs = (Inr output_path, fs')
     \<and> map_of fs' output_path = Some (CsvFile (map PStr (keys (hd results)) # rows))
     \<and> rows = map (\<lambda>r. map (\<lambda>k. dict_get r k (PStr [])) (keys (hd results))) results"
proof -
  obtain first rest where r: "results = first # rest"
    using assms(1) by (cases results) auto
  have "\<forall>r\<in>set results. set (keys r) \<subseteq> set (keys first)"
    using assms(2) r by auto
  then have "writerows w (keys first) results [map PStr (keys first)] =
     (None, [map PStr (keys first)]
            @ map (\<lambda>r. map (\<lambda>k. dict_get r k (PStr [])) (keys first)) results)"
    by (rule writerows_ok)
  then show ?thesis
    using assms(3) r by (simp add: save_results_def Let_def map_of_write_file del: writerows.simps)
qed

theorem save_results_csv_header_witness:
  "\<exists>output_path fs'.
     save_results example_fp example_world
       [[(''image_path'', PStr ''a.png''), (''success'', PBool True)],
        [(''success'', PBool False), (''image_path'', PStr ''b.png'')]] ''csv'' False []
       = (Inr output_path, fs')
     \<and> map_of fs' output_path =
         Some (CsvFile [[PStr ''image_path'', PStr ''success''],
                        [PStr ''a.png'', PBool True],
                        [PStr ''b.png'', PBool False]])"
proof -
  let ?results = "[[(''image_path'', PStr ''a.png''), (''success'', PBool True)],
                   [(''success'', PBool False), (''image_path'', PStr ''b.png'')]]"
  have nonempty: "?results \<noteq> []"
    by simp
  have same_keys: "\<forall>r\<in>set ?results. set (keys r) = set (keys (hd ?results))"
    by (auto simp: keys_def)
  have opens: "open_w example_world (path_join (output_dir example_fp)
           ((if False then ''ocr_results_'' @ now_strftime example_world else ''ocr_results'')
            @ ''.csv'')) = None"
    by (simp add: example_world_def)
  from save_results_csv_header [OF nonempty same_keys opens, of "[]"]
  obtain output_path fs' rows where
    "save_results example_fp example_world ?results ''csv'' False [] = (Inr output_path, fs')"
    "map_of fs' output_path = Some (CsvFile (map PStr (keys (hd ?results)) # rows))"
    "rows = map (\<lambda>r. map (\<lambda>k. dict_get r k (PStr [])) (keys (hd ?results))) ?results"
    by blast
  then show ?thesis
    by (simp add: keys_def dict_get_def)
qed

text \<open>
  C9. For a format other than "json", "txt" and "csv", \<open>save_results\<close> writes no file and
  raises the error of a local variable read before it was bound (\<open>output_path\<close>), whatever
  the result list; it returns no path.
\<close>

theorem save_results_unknown_format:
  "format \<notin> {''json'', ''txt'', ''csv''} \<Longrightarrow>
   save_results fp w results format timestamp fs = (Inl unbound_output_path, fs)
   \<and> exn_class unbound_output_path = ''UnboundLocalError''"
  by (simp add: save_results_def unbound_output_path_def)

theorem save_results_unknown_format_witness:
  "save_results example_fp example_world
     [[(''success'', PBool True), (''image_path'', PStr ''a.png''), (''text'', PStr ''hello'')]]
     ''xml'' True []
   = (Inl unbound_output_path, [])"
  using save_results_unknown_format
      [of "''xml''" example_fp example_world
          "[[(''success'', PBool True), (''image_path'', PStr ''a.png''), (''text'', PStr ''hello'')]]"
          True "[]"]
  by simp

section \<open>The combined processor\<close>

lemma tables_loop_tables:
  "tables_loop ts acc = Inr r \<Longrightarrow> list_all is_table acc \<Longrightarrow> list_all is_table r"
  by (induction ts arbitrary: acc) (auto simp: is_table_def split: sum.splits option.splits)

lemma process_with_docling_cases:
  "process_with_docling proc file_path extract_tables =
     Inr (case process_with_docling_body proc file_path extract_tables of
            Inr d \<Rightarrow> d
          | Inl e \<Rightarrow> [(''error'', PStr (exn_str e))])"
  by (simp add: process_with_docling_def try_except_def split: sum.splits)

lemma process_with_docling_payload:
  "process_with_docling proc file_path extract_tables = Inr d \<Longrightarrow> docling_payload d"
  by (auto simp: process_with_docling_cases process_with_docling_body_def docling_payload_def Let_def
      split: sum.splits option.splits if_splits dest!: tables_loop_tables)

lemma process_image_payload:
  "process_image eng image_path task_type output_format max_new_tokens custom_prompt = Inr g
   \<Longrightarrow> ocr_payload g"
  by (auto simp: process_image_cases process_image_body_def ocr_payload_def Let_def
      split: sum.splits option.splits list.splits)

lemma the_strs_map: "the_strs (map PStr ss) = Some ss"
  by (induction ss) auto

lemma py_join_strs: "py_join sep (map PStr ss) = Inr (join sep ss)"
  by (simp add: py_join_def the_strs_map)

lemma merge_tables_blocks:
  "list_all is_table ts \<Longrightarrow>
   merge_tables w idx ts acc = Inr (acc @ map PStr (table_blocks w idx ts))"
proof (induction ts arbitrary: idx acc)
  case Nil
  then show ?case by simp
next
  case (Cons t ts)
  then obtain data c where t: "t = PDict [(''data'', data), (''caption'', c)]"
    by (auto simp: is_table_def)
  from Cons.prems have ts: "list_all is_table ts"
    by simp
  show ?case
    by (simp add: t py_get_def dict_get_def Let_def Cons.IH [OF ts])
qed

lemma merge_results_sections:
  assumes "docling_payload d" and "ocr_payload g"
  shows "merge_results w (PDict d) (PDict g)
     = Inr (join nl (structure_section d @ tables_section w d @ ocr_section g))"
proof -
  have ocr: "(if truthy (dict_get_none g ''success'') \<and> truthy (dict_get_none g ''text'')
              then m @ [PStr (nl @ ''=== OCR CONTENT (GutenOCR) ==='' @ nl), dict_get_none g ''text'']
              else m) = m @ map PStr (ocr_section g)" for m
    using assms(2) by (auto simp: ocr_payload_def ocr_section_def dict_get_def)
  from assms(1) show ?thesis
    unfolding docling_payload_def
  proof (elim disjE exE conjE)
    fix m assume d: "d = [(''error'', PStr m)]"
    have look: "dict_get_none d ''text'' = PNone" "dict_get_none d ''tables'' = PNone"
      by (simp_all add: d dict_get_def)
    have "merge_results w (PDict d) (PDict g) = py_join nl (map PStr (ocr_section g))"
      by (simp add: merge_results_def look Let_def ocr [of "[]", simplified])
    then show ?thesis
      by (simp add: py_join_strs look structure_section_def tables_section_def)
  next
    fix t s tbls meta
    assume d: "d = [(''text'', PStr t), (''structure'', s), (''tables'', PList tbls),
                    (''metadata'', meta)]"
      and tb: "list_all is_table tbls"
    have look: "dict_get_none d ''text'' = PStr t" "dict_get_none d ''tables'' = PList tbls"
      by (simp_all add: d dict_get_def)
    have "merge_results w (PDict d) (PDict g)
        = py_join nl (map PStr (structure_section d @ tables_section w d @ ocr_section g))"
      by (simp add: merge_results_def look Let_def py_iter_def ocr
          merge_tables_blocks [OF tb] structure_section_def tables_section_def)
    then show ?thesis
      by (simp only: py_join_strs)
  qed
qed

lemma docling_payload_nonempty: "docling_payload d \<Longrightarrow> d \<noteq> []"
  by (auto simp: docling_payload_def)

lemma ocr_payload_nonempty: "ocr_payload g \<Longrightarrow> g \<noteq> []"
  by (auto simp: ocr_payload_def)

lemma process_document_both:
  assumes "use_docling proc" "extract_structure" "ocr_images"
    and D: "process_with_docling proc file_path extract_tables = Inr d"
    and G: "process_image (gutenocr proc) file_path ''reading'' ''TEXT2D'' 4096 None = Inr g"
  shows "process_document proc w file_path extract_structure extract_tables ocr_images =
     Inr [(''file_path'', PStr file_path),
          (''timestamp'', PStr (now_isoformat w)),
          (''docling_structure'', PDict d),
          (''gutenocr_ocr'', PDict g),
          (''combined_text'',
             PStr (join nl (structure_section d @ tables_section w d @ ocr_section g))),
          (''metadata'', PDict [(''docling_processed'', PBool True),
                                (''gutenocr_processed'', PBool True),
                                (''processing_mode'', PStr ''combined'')]),
          (''success'', PBool True)]"
proof -
  have d: "d \<noteq> []" and g: "g \<noteq> []"
    using D G by (auto dest!: process_with_docling_payload process_image_payload
        docling_payload_nonempty ocr_payload_nonempty)
  have m: "merge_results w (PDict d) (PDict g)
     = Inr (join nl (structure_section d @ tables_section w d @ ocr_section g))"
    using D G by (intro merge_results_sections)
      (auto dest: process_with_docling_payload process_image_payload)
  show ?thesis
    using assms(1-3) d g
    by (simp add: process_document_def seq_def step_docling_def step_gutenocr_def
        step_combine_def assign_def assign_metadata_def dict_item_def D G m Let_def)
qed

lemma process_document_docling_only:
  assumes "use_docling proc" "extract_structure" "\<not> ocr_images"
    and D: "process_with_docling proc file_path extract_tables = Inr d"
  shows "process_document proc w file_path extract_structure extract_tables ocr_images =
     Inr [(''file_path'', PStr file_path),
          (''timestamp'', PStr (now_isoformat w)),
          (''docling_structure'', PDict d),
          (''gutenocr_ocr'', PNone),
          (''combined_text'', dict_get d ''text'' (PStr [])),
          (''metadata'', PDict [(''docling_processed'', PBool True),
                                (''processing_mode'', PStr ''docling_only'')]),
          (''success'', PBool True)]"
proof -
  have d: "d \<noteq> []"
    using D by (auto dest!: process_with_docling_payload docling_payload_nonempty)
  show ?thesis
    using assms(1-3) d
    by (simp add: process_document_def seq_def step_docling_def step_gutenocr_def
        step_combine_def assign_def assign_metadata_def dict_item_def py_get_def D Let_def)
qed

lemma process_document_gutenocr_only:
  assumes "\<not> (use_docling proc \<and> extract_structure)" "ocr_images"
    and G: "process_image (gutenocr proc) file_path ''reading'' ''TEXT2D'' 4096 None = Inr g"
  shows "process_document proc w file_path extract_structure extract_tables ocr_images =
     Inr [(''file_path'', PStr file_path),
          (''timestamp'', PStr (now_isoformat w)),
          (''docling_structure'', PNone),
          (''gutenocr_ocr'', PDict g),
          (''combined_text'', dict_get g ''text'' (PStr [])),
          (''metadata'', PDict [(''gutenocr_processed'', PBool True),
                                (''processing_mode'', PStr ''gutenocr_only'')]),
          (''success'', PBool True)]"
proof -
  have g: "g \<noteq> []"
    using G by (auto dest!: process_image_payload ocr_payload_nonempty)
  have skip: "step_docling proc file_path extract_structure extract_tables r = (None, r)" for r
    using assms(1) by (auto simp: step_docling_def)
  show ?thesis
    using assms(2) g
    by (simp add: process_document_def seq_def skip step_gutenocr_def
        step_combine_def assign_def assign_metadata_def dict_item_def py_get_def G Let_def)
qed

lemma process_document_neither:
  assumes "\<not> (use_docling proc \<and> extract_structure)" "\<not> ocr_images"
  shows "process_document proc w file_path extract_structure extract_tables ocr_images =
     Inr [(''file_path'', PStr file_path),
          (''timestamp'', PStr (now_isoformat w)),
          (''docling_structure'', PNone),
          (''gutenocr_ocr'', PNone),
          (''combined_text'', PStr []),
          (''metadata'', PDict []),
          (''success'', PBool True)]"
proof -
  have skip: "step_docling proc file_path extract_structure extract_tables r = (None, r)" for r
    using assms(1) by (auto simp: step_docling_def)
  show ?thesis
    using assms(2)
    by (simp add: process_document_def seq_def skip step_gutenocr_def
        step_combine_def assign_def assign_metadata_def dict_item_def py_get_def Let_def)
qed

lemma process_document_summary:
  "\<exists>d g result.
     process_with_docling proc file_path extract_tables = Inr d
     \<and> process_image (gutenocr proc) file_path ''reading'' ''TEXT2D'' 4096 None = Inr g
     \<and> process_document proc w file_path extract_structure extract_tables ocr_images = Inr result
     \<and> dict_get_none result ''file_path'' = PStr file_path
     \<and> dict_get_none result ''success'' = PBool True
     \<and> map_of result ''error'' = None
     \<and> dict_get_none result ''docling_structure''
         = (if use_docling proc \<and> extract_structure then PDict d else PNone)
     \<and> metadata_get result ''docling_processed''
         = (if use_docling proc \<and> extract_structure then PBool True else PNone)
     \<and> dict_get_none result ''gutenocr_ocr'' = (if ocr_images then PDict g else PNone)
     \<and> metadata_get result ''gutenocr_processed'' = (if ocr_images then PBool True else PNone)
     \<and> dict_get_none result ''combined_text''
         = (if use_docling proc \<and> extract_structure
            then (if ocr_images
                  then PStr (join nl (structure_section d @ tables_section w d @ ocr_section g))
                  else dict_get d ''text'' (PStr []))
            else (if ocr_images then dict_get g ''text'' (PStr []) else PStr []))
     \<and> metadata_get result ''processing_mode''
         = (if use_docling proc \<and> extract_structure
            then (if ocr_images then PStr ''combined'' else PStr ''docling_only'')
            else (if ocr_images then PStr ''gutenocr_only'' else PNone))"
proof -
  obtain d where D: "process_with_docling proc file_path extract_tables = Inr d"
    by (simp add: process_with_docling_cases)
  obtain g where G: "process_image (gutenocr proc) file_path ''reading'' ''TEXT2D'' 4096 None = Inr g"
    by (simp add: process_image_cases)
  consider (both) "use_docling proc \<and> extract_structure" "ocr_images"
    | (docling) "use_docling proc \<and> extract_structure" "\<not> ocr_images"
    | (ocr) "\<not> (use_docling proc \<and> extract_structure)" "ocr_images"
    | (neither) "\<not> (use_docling proc \<and> extract_structure)" "\<not> ocr_images"
    by blast
  then show ?thesis
  proof cases
    case both
    then have "process_document proc w file_path extract_structure extract_tables ocr_images =
       Inr [(''file_path'', PStr file_path),
            (''timestamp'', PStr (now_isoformat w)),
            (''docling_structure'', PDict d),
            (''gutenocr_ocr'', PDict g),
            (''combined_text'',
               PStr (join nl (structure_section d @ tables_section w d @ ocr_section g))),
            (''metadata'', PDict [(''docling_processed'', PBool True),
                                  (''gutenocr_processed'', PBool True),
                                  (''processing_mode'', PStr ''combined'')]),
            (''success'', PBool True)]"
      using D G by (intro process_document_both) auto
    with both D G show ?thesis
      by (simp add: dict_get_def metadata_get_def)
  next
    case docling
    then have "process_document proc w file_path extract_structure extract_tables ocr_images =
       Inr [(''file_path'', PStr file_path),
            (''timestamp'', PStr (now_isoformat w)),
            (''docling_structure'', PDict d),
            (''gutenocr_ocr'', PNone),
            (''combined_text'', dict_get d ''text'' (PStr [])),
            (''metadata'', PDict [(''docling_processed'', PBool True),
                                  (''processing_mode'', PStr ''docling_only'')]),
            (''success'', PBool True)]"
      using D by (intro process_document_docling_only) auto
    with docling D G show ?thesis
      by (auto simp: dict_get_def metadata_get_def)
  next
    case ocr
    then have "process_document proc w file_path extract_structure extract_tables ocr_images =
       Inr [(''file_path'', PStr file_path),
            (''timestamp'', PStr (now_isoformat w)),
            (''docling_structure'', PNone),
            (''gutenocr_ocr'', PDict g),
            (''combined_text'', dict_get g ''text'' (PStr [])),
            (''metadata'', PDict [(''gutenocr_processed'', PBool True),
                                  (''processing_mode'', PStr ''gutenocr_only'')]),
            (''success'', PBool True)]"
      using G by (intro process_document_gutenocr_only) auto
    with ocr D G show ?thesis
      by (auto simp: dict_get_def metadata_get_def)
  next
    case neither
    then have "process_document proc w file_path extract_structure extract_tables ocr_images =
       Inr [(''file_path'', PStr file_path),
            (''timestamp'', PStr (now_isoformat w)),
            (''docling_structure'', PNone),
            (''gutenocr_ocr'', PNone),
            (''combined_text'', PStr []),
            (''metadata'', PDict []),
            (''success'', PBool True)]"
      by (intro process_document_neither) auto
    with neither D G show ?thesis
      by (auto simp: dict_get_def metadata_get_def)
  qed
qed

lemma combined_batch_loop_map:
  "combined_batch_loop proc w files es et oi acc =
     Inr (acc @ map (\<lambda>f. projr (process_document proc w f es et oi)) files)"
proof (induction files arbitrary: acc)
  case Nil
  then show ?case by simp
next
  case (Cons f files)
  obtain r where r: "process_document proc w f es et oi = Inr r"
    using process_document_summary [of proc f et w es oi] by blast
  show ?case
    by (simp add: r Cons.IH)
qed

lemma process_with_docling_failed:
  "process_with_docling_body proc file_path extract_tables = Inl e \<Longrightarrow>
   process_with_docling proc file_path extract_tables = Inr [(''error'', PStr (exn_str e))]"
  by (simp add: process_with_docling_cases)

lemma process_image_failed:
  "process_image_body eng image_path task_type output_format max_new_tokens custom_prompt = Inl e
   \<Longrightarrow> process_image eng image_path task_type output_format max_new_tokens custom_prompt
       = Inr [(''success'', PBool False), (''image_path'', PStr image_path),
              (''error'', PStr (exn_str e))]"
  by (simp add: process_image_cases)




text \<open>
  C8. The two stages are isolated. Whenever the structure stage is enabled its payload is
  stored in \<open>docling_structure\<close>, and whenever \<open>ocr_images\<close> is set the OCR call is made
  and its payload stored in \<open>gutenocr_ocr\<close>, whatever the other stage did. A failure of
  structure extraction is its payload \<open>{"error": str(e)}\<close>; a failure of the OCR stage is
  its payload with \<open>success\<close> false.
\<close>

theorem stage_failures_isolated:
  "\<exists>d g result.
     process_with_docling proc file_path extract_tables = Inr d
     \<and> process_image (gutenocr proc) file_path ''reading'' ''TEXT2D'' 4096 None = Inr g
     \<and> process_document proc w file_path extract_structure extract_tables ocr_images = Inr result
     \<and> (use_docling proc \<and> extract_structure \<longrightarrow>
          dict_get_none result ''docling_structure'' = PDict d
          \<and> metadata_get result ''docling_processed'' = PBool True)
     \<and> (ocr_images \<longrightarrow>
          dict_get_none result ''gutenocr_ocr'' = PDict g
          \<and> metadata_get result ''gutenocr_processed'' = PBool True)
     \<and> (\<forall>e. process_with_docling_body proc file_path extract_tables = Inl e \<longrightarrow>
            d = [(''error'', PStr (exn_str e))])
     \<and> (\<forall>e. process_image_body (gutenocr proc) file_path ''reading'' ''TEXT2D'' 4096 None = Inl e \<longrightarrow>
            g = [(''success'', PBool False), (''image_path'', PStr file_path),
                 (''error'', PStr (exn_str e))])"
proof -
  from process_document_summary [of proc file_path extract_tables w extract_structure ocr_images]
  obtain d g result where
    D: "process_with_docling proc file_path extract_tables = Inr d" and
    G: "process_image (gutenocr proc) file_path ''reading'' ''TEXT2D'' 4096 None = Inr g" and
    R: "process_document proc w file_path extract_structure extract_tables ocr_images = Inr result" and
    "dict_get_none result ''docling_structure''
         = (if use_docling proc \<and> extract_structure then PDict d else PNone)"
    "metadata_get result ''docling_processed''
         = (if use_docling proc \<and> extract_structure then PBool True else PNone)"
    "dict_get_none result ''gutenocr_ocr'' = (if ocr_images then PDict g else PNone)"
    "metadata_get result ''gutenocr_processed'' = (if ocr_images then PBool True else PNone)"
    by blast
  moreover have "\<forall>e. process_with_docling_body proc file_path extract_tables = Inl e \<longrightarrow>
            d = [(''error'', PStr (exn_str e))]"
    using D by (auto dest: process_with_docling_failed)
  moreover have "\<forall>e. process_image_body (gutenocr proc) file_path ''reading'' ''TEXT2D'' 4096 None = Inl e \<longrightarrow>
            g = [(''success'', PBool False), (''image_path'', PStr file_path),
                 (''error'', PStr (exn_str e))]"
    using G by (auto dest: process_image_failed)
  ultimately show ?thesis
    by (intro exI [of _ d] exI [of _ g] exI [of _ result]) simp
qed

theorem stage_failures_isolated_witness:
  "\<exists>result.
     process_document example_processor example_world ''input/broken.pdf'' True True True = Inr result
     \<and> dict_get_none result ''docling_structure'' = PDict [(''error'', PStr ''cannot convert'')]
     \<and> dict_get_none result ''gutenocr_ocr'' =
         PDict [(''success'', PBool True),
                (''image_path'', PStr ''input/broken.pdf''),
                (''task_type'', PStr ''reading''),
                (''output_format'', PStr ''TEXT2D''),
                (''text'', PStr ''text of input/broken.pdf''),
                (''prompt'', PStr ''Return a layout-sensitive TEXT2D representation of the image.'')]
     \<and> metadata_get result ''gutenocr_processed'' = PBool True"
proof -
  have body: "process_with_docling_body example_processor ''input/broken.pdf'' True
      = Inl (Exn ''ConversionError'' ''cannot convert'')"
    by code_simp
  have g: "process_image (gutenocr example_processor) ''input/broken.pdf'' ''reading'' ''TEXT2D'' 4096
             None
      = Inr [(''success'', PBool True),
             (''image_path'', PStr ''input/broken.pdf''),
             (''task_type'', PStr ''reading''),
             (''output_format'', PStr ''TEXT2D''),
             (''text'', PStr ''text of input/broken.pdf''),
             (''prompt'', PStr ''Return a layout-sensitive TEXT2D representation of the image.'')]"
    by code_simp
  have flags: "use_docling example_processor"
    by (simp add: example_processor_def)
  from stage_failures_isolated
         [of example_processor "''input/broken.pdf''" True example_world True True]
  show ?thesis
    unfolding g body using flags by auto
qed

lemma Path_normal_form:
  "Path ''./input'' = ''input'' \<and> Path ''input/'' = ''input'' \<and> Path ''a/./b//c'' = ''a/b/c''
   \<and> Path ''a/../b'' = ''a/../b'' \<and> Path [] = ''.'' \<and> Path ''./'' = ''.''
   \<and> Path ''/'' = ''/'' \<and> Path ''//a'' = ''//a'' \<and> Path ''///a'' = ''/a''
   \<and> path_join (Path ''./output'') ''x.json'' = ''output/x.json''
   \<and> path_join (Path ''.'') ''x.json'' = ''x.json''
   \<and> path_join (Path ''/'') ''x.json'' = ''/x.json''"
  by code_simp

text \<open>
  The batch loop. Every file of the discovered list is processed, whatever happened on
  the files before it, and when the aggregate file can be opened one result per file is
  returned in the order of the list. A failure of the model or of structure extraction on
  a file is found in that stage's payload of the file's result; the \<open>success\<close> of the
  result itself is set all the same, since no exception reaches the handler of
  \<open>process_document\<close>.
\<close>

lemma batch_process_one_result_per_file:
  fixes proc w input_dir' output_dir'
  defines "files \<equiv> discover_images
             ((file_processor proc)\<lparr>input_dir := Path input_dir',
                                     output_dir := Path output_dir'\<rparr>) w True"
  assumes "open_w w (path_join (Path output_dir')
             (''combined_results_'' @ now_strftime w @ ''.json'')) = None"
  shows "\<exists>results fs'.
     DoclingGutenOCRProcessor_batch_process proc w input_dir' output_dir'
         extract_structure extract_tables ocr_images fs = (Inr results, fs')
     \<and> length results = length files
     \<and> (\<forall>i < length files.
          dict_get_none (results ! i) ''file_path'' = PStr (files ! i)
          \<and> dict_get_none (results ! i) ''success'' = PBool True
          \<and> map_of (results ! i) ''error'' = None
          \<and> (\<forall>e. use_docling proc \<and> extract_structure
                  \<and> process_with_docling_body proc (files ! i) extract_tables = Inl e \<longrightarrow>
                dict_get_none (results ! i) ''docling_structure''
                  = PDict [(''error'', PStr (exn_str e))])
          \<and> (\<forall>e. ocr_images
                  \<and> process_image_body (gutenocr proc) (files ! i) ''reading'' ''TEXT2D'' 4096 None
                      = Inl e \<longrightarrow>
                dict_get_none (results ! i) ''gutenocr_ocr''
                  = PDict [(''success'', PBool False), (''image_path'', PStr (files ! i)),
                           (''error'', PStr (exn_str e))]))"
proof -
  let ?pd = "\<lambda>f. projr (process_document proc w f extract_structure extract_tables ocr_images)"
  have run: "DoclingGutenOCRProcessor_batch_process proc w input_dir' output_dir'
         extract_structure extract_tables ocr_images fs
       = (Inr (map ?pd files),
          write_file fs
            (path_join (Path output_dir') (''combined_results_'' @ now_strftime w @ ''.json''))
            (JsonDump (PList (map PDict (map ?pd files)))))"
    using assms(2)
    by (simp add: DoclingGutenOCRProcessor_batch_process_def combined_batch_loop_map files_def Let_def)
  have each: "dict_get_none (?pd f) ''file_path'' = PStr f
          \<and> dict_get_none (?pd f) ''success'' = PBool True
          \<and> map_of (?pd f) ''error'' = None
          \<and> (\<forall>e. use_docling proc \<and> extract_structure
                  \<and> process_with_docling_body proc f extract_tables = Inl e \<longrightarrow>
                dict_get_none (?pd f) ''docling_structure'' = PDict [(''error'', PStr (exn_str e))])
          \<and> (\<forall>e. ocr_images
                  \<and> process_image_body (gutenocr proc) f ''reading'' ''TEXT2D'' 4096 None = Inl e \<longrightarrow>
                dict_get_none (?pd f) ''gutenocr_ocr''
                  = PDict [(''success'', PBool False), (''image_path'', PStr f),
                           (''error'', PStr (exn_str e))])" for f
    using process_document_summary [of proc f extract_tables w extract_structure ocr_images]
    by (auto simp: process_with_docling_failed process_image_failed)
  show ?thesis
    unfolding run using each by (intro exI conjI) auto
qed

text \<open>
  C2. On a file where structure extraction and the image library both fail, the code
  returns a result with \<open>success\<close> true and no \<open>error\<close>, where the claim has \<open>success\<close>
  false and an error string; the two errors are only in the payloads of the stages. The
  batch on the default directories \<open>./input\<close> and \<open>./output\<close> goes on after that file and
  returns one result per discovered file, each with \<open>success\<close> true.
\<close>

theorem process_document_failure_reports_success:
  "process_document example_processor example_world ''input/missing.png'' True True True =
   Inr [(''file_path'', PStr ''input/missing.png''),
        (''timestamp'', PStr ''2024-01-01T12:00:00''),
        (''docling_structure'', PDict [(''error'', PStr ''cannot convert'')]),
        (''gutenocr_ocr'',
           PDict [(''success'', PBool False),
                  (''image_path'', PStr ''input/missing.png''),
                  (''error'', PStr ''No such file or directory'')]),
        (''combined_text'', PStr []),
        (''metadata'', PDict [(''docling_processed'', PBool True),
                              (''gutenocr_processed'', PBool True),
                              (''processing_mode'', PStr ''combined'')]),
        (''success'', PBool True)]
   \<and> (case DoclingGutenOCRProcessor_batch_process example_processor example_world
               ''./input'' ''./output'' True True True [] of
          (Inr results, fs') \<Rightarrow>
            map (\<lambda>r. (dict_get_none r ''file_path'', dict_get_none r ''success'',
                       map_of r ''error'')) results
              = [(PStr ''input/b.png'', PBool True, None),
                 (PStr ''input/missing.png'', PBool True, None),
                 (PStr ''input/old.pdf'', PBool True, None),
                 (PStr ''input/old.pdf/a.JPG'', PBool True, None)]
            \<and> map fst fs' = [''output/combined_results_20240101_120000.json'']
        | (Inl e, fs') \<Rightarrow> False)"
  by code_simp

end
